theory Spec2Isabelle
  imports Complex_Main
begin

section \<open>Numbers\<close>

text \<open>
  The program computes with JavaScript numbers. A finite number is modelled by the real it
  denotes, so arithmetic is exact: the binary rounding of IEEE doubles and overflow to
  Infinity are outside the model. The non-finite values appear where the source tests for
  them with \<^verbatim>\<open>Number.isFinite\<close>: on the quantity of a trade, on the stop-loss and
  target levels of a buy, and on the previous price of the price generator.
\<close>

datatype jsnum = Fin real | PosInf | NegInf | NaN


text \<open>
  \<^verbatim>\<open>Number(x.toFixed(2))\<close>: the integer \<open>n\<close> with \<open>n / 100\<close> closest to \<open>\<bar>x\<bar>\<close>, the
  larger one on a tie, with the sign of \<open>x\<close> put back.
\<close>

definition toFixed2 :: "real \<Rightarrow> real" where
  "toFixed2 x =
     (if x < 0 then - (of_int \<lfloor>(- x) * 100 + 1 / 2\<rfloor> / 100)
      else of_int \<lfloor>x * 100 + 1 / 2\<rfloor> / 100)"

section \<open>Price generator (utils/marketSim.js)\<close>



section \<open>Fee calculator (calculateCharges)\<close>

datatype side = BUY | SELL

record charges =
  turnover :: real
  brokerage :: real
  stt :: real
  exchange :: real
  sebi :: real
  stamp :: real
  gst :: real
  dp :: real
  total :: real

definition calculateCharges :: "side \<Rightarrow> real \<Rightarrow> real \<Rightarrow> charges" where
  "calculateCharges sd qty price =
     (let turnover = qty * price;
          brokerage = min (turnover * 0.0003) 20;
          stt = (if sd = SELL then turnover * 0.00025 else 0);
          exchange = turnover * 0.0000345;
          sebi = turnover * 0.000001;
          stamp = (if sd = BUY then turnover * 0.00003 else 0);
          gst = 0.18 * (brokerage + exchange);
          dp = (if sd = SELL then 13.5 else 0);
          total = brokerage + stt + exchange + sebi + stamp + gst + dp
      in \<lparr>turnover = turnover, brokerage = brokerage, stt = stt, exchange = exchange,
          sebi = sebi, stamp = stamp, gst = gst, dp = dp, total = total\<rparr>)"

section \<open>Ledger (cash, holdings, orders)\<close>

text \<open>
  A stock of the market list; only the fields the ledger reads are kept. A holding and an
  order are the object literals that \<^verbatim>\<open>buyStock\<close> and \<^verbatim>\<open>sellStock\<close> build. The
  order id \<^verbatim>\<open>ORD-<Date.now()>\<close> is kept as the clock value.
\<close>

record stock =
  stk_symbol :: string
  price :: real

record holding =
  symbol :: string
  qty :: real
  avgBuy :: real
  sl :: "real option"
  target :: "real option"

datatype status = FILLED

record order =
  ord_id :: nat
  ord_time :: string
  ord_symbol :: string
  ord_side :: side
  ord_qty :: real
  ord_price :: real
  ord_status :: status
  ord_charges :: real

text \<open>The three pieces of React state of the portfolio.\<close>

record ledger =
  cash :: real
  holdings :: "holding list"
  orders :: "order list"

text \<open>
  What a render of the component closes over: the market list, the values of the portfolio
  state at that render, and the clock and time label read while a handler runs. A handler
  reads \<^verbatim>\<open>stocks\<close>, \<^verbatim>\<open>cash\<close> and \<^verbatim>\<open>holdings\<close> from here; the updater functions
  it passes to \<^verbatim>\<open>setCash\<close>, \<^verbatim>\<open>setHoldings\<close> and \<^verbatim>\<open>setOrders\<close> are applied, in the
  order of the calls, to the pending state, which is the ledger argument of the handlers
  below. For a handler called from a click the pending state is the snapshot itself.
  The trade inputs that a buy resets, the toast and the alert text are presentation and
  are not part of the ledger; an alert is kept as the outcome of the call.
\<close>

record render =
  stocks :: "stock list"
  snap :: ledger
  now :: nat
  timeLabel :: string

datatype alert = QuantityAtLeastOne | NotEnoughBalance | NotOwned | NotEnoughQuantity

datatype outcome = NoLiveStock | Alert alert | Filled

definition pushOrder :: "order \<Rightarrow> order list \<Rightarrow> order list" where
  "pushOrder ord prev = take 60 (ord # prev)"

text \<open>
  \<^verbatim>\<open>slPrice === "" ? null : Number(slPrice)\<close> followed by
  \<^verbatim>\<open>Number.isFinite(parsed) ? parsed : null\<close>. The argument is \<open>None\<close> for the empty
  string and otherwise the number that \<^verbatim>\<open>Number\<close> reads from the input.
\<close>

fun parseLevel :: "jsnum option \<Rightarrow> real option" where
  "parseLevel None = None"
| "parseLevel (Some (Fin x)) = Some x"
| "parseLevel (Some PosInf) = None"
| "parseLevel (Some NegInf) = None"
| "parseLevel (Some NaN) = None"

text \<open>\<^verbatim>\<open>a ?? b\<close> on a field that is a number or null.\<close>

fun nullish :: "'a option \<Rightarrow> 'a option \<Rightarrow> 'a option" where
  "nullish (Some v) b = Some v"
| "nullish None b = b"

text \<open>
  The updater that \<^verbatim>\<open>buyStock\<close> passes to \<^verbatim>\<open>setHoldings\<close>. The divisor \<open>newQty\<close> is
  positive whenever the holdings have positive quantities, which every buy and sell
  preserves (lemmas \<open>buyHoldings_positive\<close> and \<open>sellHoldings_positive\<close>); JavaScript's
  division by zero is therefore not modelled.
\<close>

definition buyHoldings ::
  "string \<Rightarrow> real \<Rightarrow> real \<Rightarrow> jsnum option \<Rightarrow> jsnum option \<Rightarrow> holding list \<Rightarrow> holding list" where
  "buyHoldings symb quantity p slPrice targetPrice prev =
     (let parsedSL = parseLevel slPrice;
          parsedTarget = parseLevel targetPrice
      in case find (\<lambda>h. symbol h = symb) prev of
           None \<Rightarrow>
             prev @ [\<lparr>symbol = symb, qty = quantity, avgBuy = toFixed2 p,
                      sl = parsedSL, target = parsedTarget\<rparr>]
         | Some existing \<Rightarrow>
             (let newQty = qty existing + quantity;
                  newAvg = (qty existing * avgBuy existing + quantity * p) / newQty
              in map (\<lambda>h. if symbol h = symb
                           then h\<lparr>qty := newQty, avgBuy := toFixed2 newAvg,
                                  sl := nullish (sl existing) parsedSL,
                                  target := nullish (target existing) parsedTarget\<rparr>
                           else h) prev))"

definition buyStock ::
  "render \<Rightarrow> string \<Rightarrow> jsnum \<Rightarrow> jsnum option \<Rightarrow> jsnum option \<Rightarrow> ledger \<Rightarrow> outcome \<times> ledger" where
  "buyStock r symb quantity slPrice targetPrice st =
     (case find (\<lambda>s. stk_symbol s = symb) (stocks r) of
        None \<Rightarrow> (NoLiveStock, st)
      | Some live \<Rightarrow>
          (case quantity of
             Fin q \<Rightarrow>
               if q \<le> 0 then (Alert QuantityAtLeastOne, st)
               else
                 (let p = price live;
                      ch = calculateCharges BUY q p;
                      totalDebit = q * p + total ch
                  in if totalDebit > cash (snap r) then (Alert NotEnoughBalance, st)
                     else
                       (Filled,
                        \<lparr>cash = toFixed2 (cash st - totalDebit),
                         holdings = buyHoldings symb q p slPrice targetPrice (holdings st),
                         orders =
                           pushOrder
                             \<lparr>ord_id = now r, ord_time = timeLabel r, ord_symbol = symb,
                              ord_side = BUY, ord_qty = q, ord_price = toFixed2 p,
                              ord_status = FILLED, ord_charges = toFixed2 (total ch)\<rparr>
                             (orders st)\<rparr>))
           | PosInf \<Rightarrow> (Alert QuantityAtLeastOne, st)
           | NegInf \<Rightarrow> (Alert QuantityAtLeastOne, st)
           | NaN \<Rightarrow> (Alert QuantityAtLeastOne, st)))"

text \<open>The updater that \<^verbatim>\<open>sellStock\<close> passes to \<^verbatim>\<open>setHoldings\<close>.\<close>

definition sellHoldings :: "string \<Rightarrow> real \<Rightarrow> holding list \<Rightarrow> holding list" where
  "sellHoldings symb quantity prev =
     (case find (\<lambda>x. symbol x = symb) prev of
        None \<Rightarrow> prev
      | Some h \<Rightarrow>
          (let newQty = qty h - quantity
           in if newQty \<le> 0 then filter (\<lambda>x. symbol x \<noteq> symb) prev
              else map (\<lambda>x. if symbol x = symb then x\<lparr>qty := newQty\<rparr> else x) prev))"

definition sellStock :: "render \<Rightarrow> string \<Rightarrow> jsnum \<Rightarrow> ledger \<Rightarrow> outcome \<times> ledger" where
  "sellStock r symb quantity st =
     (case find (\<lambda>s. stk_symbol s = symb) (stocks r) of
        None \<Rightarrow> (NoLiveStock, st)
      | Some live \<Rightarrow>
          (case quantity of
             Fin q \<Rightarrow>
               if q \<le> 0 then (Alert QuantityAtLeastOne, st)
               else
                 (case find (\<lambda>h. symbol h = symb) (holdings (snap r)) of
                    None \<Rightarrow> (Alert NotOwned, st)
                  | Some existing \<Rightarrow>
                      if q > qty existing then (Alert NotEnoughQuantity, st)
                      else
                        (let p = price live;
                             ch = calculateCharges SELL q p;
                             grossCredit = q * p;
                             netCredit = grossCredit - total ch
                         in (Filled,
                             \<lparr>cash = toFixed2 (cash st + netCredit),
                              holdings = sellHoldings symb q (holdings st),
                              orders =
                                pushOrder
                                  \<lparr>ord_id = now r, ord_time = timeLabel r, ord_symbol = symb,
                                   ord_side = SELL, ord_qty = q, ord_price = toFixed2 p,
                                   ord_status = FILLED, ord_charges = toFixed2 (total ch)\<rparr>
                                  (orders st)\<rparr>)))
           | PosInf \<Rightarrow> (Alert QuantityAtLeastOne, st)
           | NegInf \<Rightarrow> (Alert QuantityAtLeastOne, st)
           | NaN \<Rightarrow> (Alert QuantityAtLeastOne, st)))"

section \<open>Auto-exit monitor (the stop-loss/target effect)\<close>

text \<open>
  The body of the \<^verbatim>\<open>forEach\<close> callback for one holding \<open>h\<close> of the render's
  \<^verbatim>\<open>holdings\<close>: both tests read \<open>h\<close>, and each call of \<^verbatim>\<open>sellStock\<close> queues its
  updaters on the pending state.
\<close>

definition exitHolding :: "render \<Rightarrow> ledger \<Rightarrow> holding \<Rightarrow> ledger" where
  "exitHolding r st h =
     (case find (\<lambda>s. stk_symbol s = symbol h) (stocks r) of
        None \<Rightarrow> st
      | Some live \<Rightarrow>
          (let ltp = price live;
               st1 = (case target h of
                        None \<Rightarrow> st
                      | Some t \<Rightarrow>
                          if ltp \<ge> t \<and> qty h > 0
                          then snd (sellStock r (symbol h) (Fin (qty h)) st) else st)
           in case sl h of
                None \<Rightarrow> st1
              | Some s \<Rightarrow>
                  if ltp \<le> s \<and> qty h > 0
                  then snd (sellStock r (symbol h) (Fin (qty h)) st1) else st1))"

definition autoExit :: "render \<Rightarrow> ledger \<Rightarrow> ledger" where
  "autoExit r st =
     (if holdings (snap r) = [] then st
      else foldl (exitHolding r) st (holdings (snap r)))"

section \<open>Candle aggregator (the build-candles effect)\<close>

record candle =
  cid :: nat
  time :: string
  "open" :: real
  high :: real
  low :: real
  close :: real
  ticks :: nat

text \<open>
  The mutable reference \<^verbatim>\<open>candleRef.current\<close> (null or the open candle) and the
  \<^verbatim>\<open>candles\<close> state.
\<close>

record aggregator =
  candleRef :: "candle option"
  candles :: "candle list"

definition CANDLE_TICKS :: nat where
  "CANDLE_TICKS = 6"

text \<open>
  \<^verbatim>\<open>list[list.length - 1] = updated\<close>: on an empty array the index is \<open>-1\<close>, which
  sets a property and leaves the elements as they are.
\<close>

definition setLast :: "'a list \<Rightarrow> 'a \<Rightarrow> 'a list" where
  "setLast list v = (if list = [] then [] else list[length list - 1 := v])"

text \<open>\<^verbatim>\<open>list.slice(-n)\<close>: the last \<open>n\<close> elements.\<close>

definition sliceLast :: "nat \<Rightarrow> 'a list \<Rightarrow> 'a list" where
  "sliceLast n list = drop (length list - n) list"

definition initialCandles :: aggregator where
  "initialCandles = \<lparr>candleRef = None, candles = []\<rparr>"

text \<open>The reset effect that runs when the selected symbol changes.\<close>

definition resetCandles :: "aggregator \<Rightarrow> aggregator" where
  "resetCandles a = \<lparr>candleRef = None, candles = []\<rparr>"

text \<open>
  One run of the effect with its updater: \<open>selectedStock\<close> is the selected stock if there
  is one, \<open>tm\<close> the time label and \<open>clock\<close> the value of \<^verbatim>\<open>Date.now()\<close>.
\<close>

definition buildCandles :: "stock option \<Rightarrow> string \<Rightarrow> nat \<Rightarrow> aggregator \<Rightarrow> aggregator" where
  "buildCandles selectedStock tm clock a =
     (case selectedStock of
        None \<Rightarrow> a
      | Some s \<Rightarrow>
          (let p = price s
           in case candleRef a of
                None \<Rightarrow>
                  (let c = \<lparr>cid = clock, time = tm, open = p, high = p, low = p, close = p,
                            ticks = 1\<rparr>
                   in \<lparr>candleRef = Some c, candles = candles a @ [c]\<rparr>)
              | Some current \<Rightarrow>
                  (let updated = current\<lparr>high := max (high current) p,
                                         low := min (low current) p,
                                         close := p,
                                         ticks := ticks current + 1,
                                         time := tm\<rparr>;
                       list = setLast (candles a) updated
                   in if ticks updated \<ge> CANDLE_TICKS
                      then
                        (let next = \<lparr>cid = clock + 1, time = tm, open = close updated,
                                     high = close updated, low = close updated,
                                     close = close updated, ticks = 0\<rparr>
                         in \<lparr>candleRef = Some next, candles = sliceLast 300 (list @ [next])\<rparr>)
                      else \<lparr>candleRef = Some updated, candles = sliceLast 300 list\<rparr>)))"

text \<open>The states the aggregator can be in: the initial one, and those the two effects lead to.\<close>

inductive reachable :: "aggregator \<Rightarrow> bool" where
  reach_init: "reachable initialCandles"
| reach_reset: "reachable a \<Longrightarrow> reachable (resetCandles a)"
| reach_build: "reachable a \<Longrightarrow> reachable (buildCandles sel tm clock a)"

text \<open>
  The shape of a candle, and what holds of every state of the aggregator that the effects
  lead to: each candle of the list has that shape, and the open candle, when there is
  one, is the last candle of the list and has not reached the threshold.
\<close>

definition candle_ok :: "candle \<Rightarrow> bool" where
  "candle_ok c =
     (low c \<le> min (open c) (close c) \<and>
      min (open c) (close c) \<le> max (open c) (close c) \<and>
      max (open c) (close c) \<le> high c)"

definition agg_inv :: "aggregator \<Rightarrow> bool" where
  "agg_inv a =
     (list_all candle_ok (candles a) \<and>
      (case candleRef a of
         None \<Rightarrow> True
       | Some c \<Rightarrow> candles a \<noteq> [] \<and> last (candles a) = c \<and> ticks c < CANDLE_TICKS))"

section \<open>Example inputs\<close>

text \<open>The portfolio state of a fresh session, and a market list with one stock.\<close>

definition openingLedger :: ledger where
  "openingLedger = \<lparr>cash = 100000, holdings = [], orders = []\<rparr>"

definition infy :: "real \<Rightarrow> stock list" where
  "infy p = [\<lparr>stk_symbol = ''INFY'', price = p\<rparr>]"

text \<open>
  The render after a buy of 10 shares at 150 with stop-loss 200 and target 100: the price
  150 is at once above the target and below the stop-loss.
\<close>

definition invertedLevels :: render where
  "invertedLevels =
     \<lparr>stocks = infy 150,
      snap = \<lparr>cash = 98499.36,
              holdings = [\<lparr>symbol = ''INFY'', qty = 10, avgBuy = 150, sl = Some 200,
                           target = Some 100\<rparr>],
              orders = [\<lparr>ord_id = 1, ord_time = ''09:15:01'', ord_symbol = ''INFY'',
                         ord_side = BUY, ord_qty = 10, ord_price = 150, ord_status = FILLED,
                         ord_charges = 0.64\<rparr>]\<rparr>,
      now = 2, timeLabel = ''09:15:02''\<rparr>"

definition exitOrder :: order where
  "exitOrder =
     \<lparr>ord_id = 2, ord_time = ''09:15:02'', ord_symbol = ''INFY'', ord_side = SELL,
      ord_qty = 10, ord_price = 150, ord_status = FILLED, ord_charges = 14.47\<rparr>"

text \<open>One share held while the price is 10.\<close>

definition pennySale :: render where
  "pennySale =
     \<lparr>stocks = infy 10,
      snap = \<lparr>cash = 99990,
              holdings = [\<lparr>symbol = ''INFY'', qty = 1, avgBuy = 10, sl = None,
                           target = None\<rparr>],
              orders = []\<rparr>,
      now = 3, timeLabel = ''09:15:03''\<rparr>"




text \<open>A fresh session in which the price is too high for 1000 shares.\<close>

definition largeBuy :: render where
  "largeBuy =
     \<lparr>stocks = infy 500, snap = openingLedger, now = 7, timeLabel = ''09:15:07''\<rparr>"

text \<open>The aggregator after five prices of the selected stock.\<close>

definition fiveTicks :: aggregator where
  "fiveTicks =
     buildCandles (Some \<lparr>stk_symbol = ''INFY'', price = 100.1\<rparr>) ''09:15:05'' 50
       (buildCandles (Some \<lparr>stk_symbol = ''INFY'', price = 100.7\<rparr>) ''09:15:04'' 40
         (buildCandles (Some \<lparr>stk_symbol = ''INFY'', price = 99.2\<rparr>) ''09:15:03'' 30
           (buildCandles (Some \<lparr>stk_symbol = ''INFY'', price = 101.5\<rparr>) ''09:15:02'' 20
             (buildCandles (Some \<lparr>stk_symbol = ''INFY'', price = 100\<rparr>) ''09:15:01'' 10
               initialCandles))))"

section \<open>Auxiliary facts\<close>

lemmas ledger_defs = buyStock_def sellStock_def calculateCharges_def buyHoldings_def
  sellHoldings_def pushOrder_def toFixed2_def Let_def

lemmas candle_defs = buildCandles_def setLast_def sliceLast_def CANDLE_TICKS_def
  initialCandles_def Let_def

lemma find_in_set: "find P xs = Some x \<Longrightarrow> x \<in> set xs \<and> P x"
  by (induction xs) (auto split: if_splits)


subsection \<open>Holdings keep positive quantities\<close>

lemma buyHoldings_positive:
  assumes q: "0 < q" and pos: "list_all (\<lambda>h. 0 < qty h) prev"
  shows "list_all (\<lambda>h. 0 < qty h) (buyHoldings symb q p slPrice targetPrice prev)"
proof (cases "find (\<lambda>h. symbol h = symb) prev")
  case None
  then show ?thesis using q pos by (simp add: buyHoldings_def)
next
  case (Some existing)
  then have "existing \<in> set prev" by (simp add: find_in_set)
  then have "0 < qty existing" using pos by (simp add: list_all_iff)
  then have "0 < qty existing + q" using q by simp
  then show ?thesis using Some pos
    by (auto simp: buyHoldings_def Let_def list_all_iff)
qed

lemma sellHoldings_positive:
  assumes pos: "list_all (\<lambda>h. 0 < qty h) prev"
  shows "list_all (\<lambda>h. 0 < qty h) (sellHoldings symb q prev)"
proof (cases "find (\<lambda>x. symbol x = symb) prev")
  case None
  then show ?thesis using pos by (simp add: sellHoldings_def)
next
  case (Some h)
  show ?thesis
  proof (cases "qty h - q \<le> 0")
    case True
    then show ?thesis using Some pos by (simp add: sellHoldings_def list_all_iff)
  next
    case False
    then show ?thesis using Some pos by (auto simp: sellHoldings_def list_all_iff)
  qed
qed

subsection \<open>The fee total as a function of the turnover\<close>


subsection \<open>A filled sell credits the net amount, whatever its sign\<close>

lemma sellStock_cash:
  assumes sell: "sellStock r symb (Fin q) st = (Filled, st')"
    and live: "find (\<lambda>s. stk_symbol s = symb) (stocks r) = Some live"
  shows "cash st' =
     toFixed2 (cash st + (q * price live - total (calculateCharges SELL q (price live))))"
  using sell live
  by (auto simp: sellStock_def Let_def split: if_splits option.splits)

subsection \<open>The aggregator's invariant\<close>

lemma setLast_butlast: "xs \<noteq> [] \<Longrightarrow> setLast xs v = butlast xs @ [v]"
  by (induction xs rule: rev_induct) (simp_all add: setLast_def)

lemma sliceLast_start: "xs \<noteq> [] \<Longrightarrow> 0 < n \<Longrightarrow> length xs - n < length xs"
  by (cases xs) simp_all

lemma sliceLast_nonempty:
  assumes "xs \<noteq> []" and "0 < n"
  shows "sliceLast n xs \<noteq> []"
  using sliceLast_start [OF assms] by (simp add: sliceLast_def)

lemma sliceLast_last:
  assumes "xs \<noteq> []" and "0 < n"
  shows "last (sliceLast n xs) = last xs"
  using sliceLast_start [OF assms] by (simp add: sliceLast_def)

lemma sliceLast_append_two: "sliceLast 300 (ys @ [s, n]) = sliceLast 298 ys @ [s, n]"
  by (simp add: sliceLast_def)

lemma sliceLast_all: "list_all P xs \<Longrightarrow> list_all P (sliceLast n xs)"
  by (auto simp: sliceLast_def list_all_iff dest: in_set_dropD)

lemma butlast_all: "list_all P xs \<Longrightarrow> list_all P (butlast xs)"
  by (auto simp: list_all_iff dest: in_set_butlastD)

lemma updated_ok:
  assumes "candle_ok c"
  shows "candle_ok (c\<lparr>high := max (high c) p, low := min (low c) p, close := p,
                      ticks := n, time := tm\<rparr>)"
  using assms by (auto simp: candle_ok_def)

lemma agg_inv_initial: "agg_inv initialCandles"
  by (simp add: agg_inv_def initialCandles_def)

lemma agg_inv_reset: "agg_inv (resetCandles a)"
  by (simp add: agg_inv_def resetCandles_def)

lemma buildCandles_first:
  assumes "candleRef a = None"
  shows "buildCandles (Some s) tm clock a =
     \<lparr>candleRef = Some \<lparr>cid = clock, time = tm, open = price s, high = price s,
                          low = price s, close = price s, ticks = 1\<rparr>,
      candles = candles a @ [\<lparr>cid = clock, time = tm, open = price s, high = price s,
                               low = price s, close = price s, ticks = 1\<rparr>]\<rparr>"
  using assms by (simp add: buildCandles_def Let_def)

lemma buildCandles_update:
  assumes "candleRef a = Some current" and "candles a \<noteq> []"
    and "\<not> CANDLE_TICKS \<le> ticks current + 1"
  shows "buildCandles (Some s) tm clock a =
     \<lparr>candleRef = Some (current\<lparr>high := max (high current) (price s),
                                  low := min (low current) (price s), close := price s,
                                  ticks := ticks current + 1, time := tm\<rparr>),
      candles = sliceLast 300 (butlast (candles a) @
                 [current\<lparr>high := max (high current) (price s),
                           low := min (low current) (price s), close := price s,
                           ticks := ticks current + 1, time := tm\<rparr>])\<rparr>"
  using assms by (simp add: buildCandles_def Let_def setLast_butlast)

lemma buildCandles_seal:
  assumes "candleRef a = Some current" and "candles a \<noteq> []"
    and "CANDLE_TICKS \<le> ticks current + 1"
  shows "buildCandles (Some s) tm clock a =
     \<lparr>candleRef = Some \<lparr>cid = clock + 1, time = tm, open = price s, high = price s,
                          low = price s, close = price s, ticks = 0\<rparr>,
      candles = sliceLast 300 (butlast (candles a) @
                 [current\<lparr>high := max (high current) (price s),
                           low := min (low current) (price s), close := price s,
                           ticks := ticks current + 1, time := tm\<rparr>,
                  \<lparr>cid = clock + 1, time = tm, open = price s, high = price s,
                    low = price s, close = price s, ticks = 0\<rparr>])\<rparr>"
  using assms by (simp add: buildCandles_def Let_def setLast_butlast)

lemma agg_inv_build:
  assumes inv: "agg_inv a"
  shows "agg_inv (buildCandles sel tm clock a)"
proof (cases sel)
  case None
  then show ?thesis using inv by (simp add: buildCandles_def)
next
  case (Some s)
  show ?thesis
  proof (cases "candleRef a")
    case None
    show ?thesis unfolding Some buildCandles_first [OF None]
      using inv by (simp add: agg_inv_def candle_ok_def CANDLE_TICKS_def)
  next
    case cur: (Some current)
    from inv cur have ne: "candles a \<noteq> []" and la: "last (candles a) = current"
      and all: "list_all candle_ok (candles a)"
      by (simp_all add: agg_inv_def)
    from ne la have "current \<in> set (candles a)" using last_in_set by blast
    with all have ok: "candle_ok current" by (simp add: list_all_iff)
    have bl: "list_all candle_ok (butlast (candles a))" using all by (rule butlast_all)
    show ?thesis
    proof (cases "CANDLE_TICKS \<le> ticks current + 1")
      case True
      show ?thesis unfolding Some buildCandles_seal [OF cur ne True]
        using bl updated_ok [OF ok]
        by (simp add: agg_inv_def sliceLast_all sliceLast_nonempty sliceLast_last
            candle_ok_def CANDLE_TICKS_def)
    next
      case False
      show ?thesis unfolding Some buildCandles_update [OF cur ne False]
        using bl updated_ok [OF ok] False
        by (simp add: agg_inv_def sliceLast_all sliceLast_nonempty sliceLast_last)
    qed
  qed
qed

lemma reachable_inv: "reachable a \<Longrightarrow> agg_inv a"
  by (induction rule: reachable.induct)
     (simp_all add: agg_inv_initial agg_inv_reset agg_inv_build)

lemma reachable_fiveTicks: "reachable fiveTicks"
  unfolding fiveTicks_def by (intro reachable.intros)


section \<open>Properties of the program\<close>

text \<open>
  C1. Claim: when the target and the stop-loss of a holding both trigger in one cycle of
  the auto-exit monitor, exactly one sell executes for the symbol, so cash is credited
  once and one SELL order is appended.

  The code does otherwise. The session starts with cash 100000; 10 shares are bought at
  150 with stop-loss 200 and target 100, which gives the render \<open>invertedLevels\<close>. One
  call of \<open>sellStock\<close> for the 10 shares closes the position, credits cash once
  (99984.89) and appends one order. The monitor, run on that render, calls \<open>sellStock\<close>
  twice, since both tests and the ownership check inside \<open>sellStock\<close> read the holdings
  of the render: cash is credited twice (101470.42) and two SELL orders are appended.
  Only the holdings updater looks at the pending state and leaves it alone the second
  time.
\<close>

theorem autoExit_sells_twice:
  "buyStock \<lparr>stocks = infy 150, snap = openingLedger, now = 1, timeLabel = ''09:15:01''\<rparr>
      ''INFY'' (Fin 10) (Some (Fin 200)) (Some (Fin 100)) openingLedger
     = (Filled, snap invertedLevels)
   \<and> sellStock invertedLevels ''INFY'' (Fin 10) (snap invertedLevels)
     = (Filled,
        \<lparr>cash = 99984.89, holdings = [],
         orders = exitOrder # orders (snap invertedLevels)\<rparr>)
   \<and> autoExit invertedLevels (snap invertedLevels)
     = \<lparr>cash = 101470.42, holdings = [],
        orders = exitOrder # exitOrder # orders (snap invertedLevels)\<rparr>"
  by (simp add: ledger_defs autoExit_def exitHolding_def invertedLevels_def
      openingLedger_def infy_def exitOrder_def)

text \<open>
  C2. A buy of a positive finite quantity whose total debit (quantity times price plus the
  total of the BUY charges) exceeds the cash of the render fails with the
  not-enough-balance alert and leaves the ledger (cash, holdings and orders) as it was.
\<close>

theorem buyStock_insufficient_funds:
  assumes live: "find (\<lambda>s. stk_symbol s = symb) (stocks r) = Some live"
    and q: "0 < q"
    and debit: "q * price live + total (calculateCharges BUY q (price live)) > cash (snap r)"
  shows "buyStock r symb (Fin q) slPrice targetPrice st = (Alert NotEnoughBalance, st)"
  using live q debit by (simp add: buyStock_def Let_def)

theorem buyStock_insufficient_funds_witness:
  "find (\<lambda>s. stk_symbol s = ''INFY'') (stocks largeBuy) = Some \<lparr>stk_symbol = ''INFY'', price = 500\<rparr>
   \<and> (0 :: real) < 1000
   \<and> 1000 * 500 + total (calculateCharges BUY 1000 500) > cash (snap largeBuy)
   \<and> buyStock largeBuy ''INFY'' (Fin 1000) None None openingLedger
       = (Alert NotEnoughBalance, openingLedger)"
proof -
  let ?live = "\<lparr>stk_symbol = ''INFY'', price = 500\<rparr>"
  have live: "find (\<lambda>s. stk_symbol s = ''INFY'') (stocks largeBuy) = Some ?live"
    by (simp add: largeBuy_def infy_def)
  have q: "(0 :: real) < 1000" by simp
  have debit: "1000 * price ?live + total (calculateCharges BUY 1000 (price ?live))
      > cash (snap largeBuy)"
    by (simp add: largeBuy_def openingLedger_def calculateCharges_def Let_def)
  from buyStock_insufficient_funds [OF live q debit]
  have "buyStock largeBuy ''INFY'' (Fin 1000) None None openingLedger
      = (Alert NotEnoughBalance, openingLedger)" .
  with live q debit show ?thesis by simp
qed

text \<open>
  C3. From cash 100000 and no holdings, a buy of 10 shares at 500 computes the BUY charges
  on the turnover 5000 (brokerage 1.5, stt 0, exchange 0.1725, sebi 0.005, stamp 0.15,
  gst 0.18 * (1.5 + 0.1725), dp 0), leaves cash 94997.87 and creates a holding of
  quantity 10 at the average price 500.
\<close>

theorem buy_ten_at_500:
  "calculateCharges BUY 10 500
     = \<lparr>turnover = 5000, brokerage = 1.5, stt = 0, exchange = 0.1725, sebi = 0.005,
        stamp = 0.15, gst = 0.18 * (1.5 + 0.1725), dp = 0, total = 2.12855\<rparr>
   \<and> buyStock
       \<lparr>stocks = [\<lparr>stk_symbol = symb, price = 500\<rparr>], snap = openingLedger, now = clock,
        timeLabel = tm\<rparr>
       symb (Fin 10) slPrice targetPrice openingLedger
     = (Filled,
        \<lparr>cash = 94997.87,
         holdings = [\<lparr>symbol = symb, qty = 10, avgBuy = 500, sl = parseLevel slPrice,
                      target = parseLevel targetPrice\<rparr>],
         orders = [\<lparr>ord_id = clock, ord_time = tm, ord_symbol = symb, ord_side = BUY,
                    ord_qty = 10, ord_price = 500, ord_status = FILLED,
                    ord_charges = 2.13\<rparr>]\<rparr>)"
  by (simp add: ledger_defs openingLedger_def)




text \<open>
  C5. In a state the aggregator can be in, when an ingest takes the tick count of the
  open candle to the threshold 6, the updated candle is sealed into the history (it
  replaces the open candle there, before the list is cut to its last 300 entries) and
  exactly one new candle follows it, as the last entry, and becomes the open one: its open, high, low and close are the close of the sealed candle and its tick
  count is 0, below the threshold, so nothing else is sealed by that ingest.
\<close>

theorem buildCandles_seals_once:
  assumes reach: "reachable a"
    and cur: "candleRef a = Some current"
    and thr: "CANDLE_TICKS \<le> ticks current + 1"
  shows "\<exists>sealed next.
           sealed = current\<lparr>high := max (high current) (price s),
                            low := min (low current) (price s), close := price s,
                            ticks := ticks current + 1, time := tm\<rparr> \<and>
           ticks sealed = 6 \<and>
           candleRef (buildCandles (Some s) tm clock a) = Some next \<and>
           candles (buildCandles (Some s) tm clock a) =
             sliceLast 300 (butlast (candles a) @ [sealed, next]) \<and>
           (\<exists>older. candles (buildCandles (Some s) tm clock a) = older @ [sealed, next]) \<and>
           open next = close sealed \<and> high next = close sealed \<and>
           low next = close sealed \<and> close next = close sealed \<and> ticks next = 0"
proof -
  have inv: "agg_inv a" using reach by (rule reachable_inv)
  with cur have ne: "candles a \<noteq> []" and lt: "ticks current < CANDLE_TICKS"
    by (simp_all add: agg_inv_def)
  from lt thr have "ticks current + 1 = 6" by (simp add: CANDLE_TICKS_def)
  then show ?thesis unfolding buildCandles_seal [OF cur ne thr]
    by (simp add: sliceLast_append_two)
qed

theorem buildCandles_seals_once_witness:
  "reachable fiveTicks
   \<and> candleRef fiveTicks
       = Some \<lparr>cid = 10, time = ''09:15:05'', open = 100, high = 101.5, low = 99.2,
               close = 100.1, ticks = 5\<rparr>
   \<and> CANDLE_TICKS \<le> 5 + 1
   \<and> (\<exists>sealed nxt.
         sealed = \<lparr>cid = 10, time = ''09:15:06'', open = 100, high = 102.3, low = 99.2,
                   close = 102.3, ticks = 6\<rparr> \<and>
         candleRef (buildCandles (Some \<lparr>stk_symbol = ''INFY'', price = 102.3\<rparr>)
                      ''09:15:06'' 60 fiveTicks) = Some nxt \<and>
         candles (buildCandles (Some \<lparr>stk_symbol = ''INFY'', price = 102.3\<rparr>)
                    ''09:15:06'' 60 fiveTicks) = [sealed, nxt] \<and>
         open nxt = 102.3 \<and> high nxt = 102.3 \<and> low nxt = 102.3 \<and> close nxt = 102.3 \<and>
         ticks nxt = 0)"
proof -
  let ?cur = "\<lparr>cid = 10, time = ''09:15:05'', open = 100, high = 101.5, low = 99.2,
               close = 100.1, ticks = 5\<rparr>"
  let ?s = "\<lparr>stk_symbol = ''INFY'', price = 102.3\<rparr>"
  have cur: "candleRef fiveTicks = Some ?cur"
    by (simp add: fiveTicks_def candle_defs)
  have hist: "candles fiveTicks = [?cur]"
    by (simp add: fiveTicks_def candle_defs)
  have thr: "CANDLE_TICKS \<le> ticks ?cur + 1" by (simp add: CANDLE_TICKS_def)
  from buildCandles_seals_once [OF reachable_fiveTicks cur thr,
      where s = ?s and tm = "''09:15:06''" and clock = 60]
  have "\<exists>sealed nxt.
         sealed = \<lparr>cid = 10, time = ''09:15:06'', open = 100, high = 102.3, low = 99.2,
                   close = 102.3, ticks = 6\<rparr> \<and>
         candleRef (buildCandles (Some ?s) ''09:15:06'' 60 fiveTicks) = Some nxt \<and>
         candles (buildCandles (Some ?s) ''09:15:06'' 60 fiveTicks) = [sealed, nxt] \<and>
         open nxt = 102.3 \<and> high nxt = 102.3 \<and> low nxt = 102.3 \<and> close nxt = 102.3 \<and>
         ticks nxt = 0"
    by (auto simp: hist sliceLast_def)
  with reachable_fiveTicks cur thr show ?thesis by simp
qed

text \<open>
  C6. After every ingest, in a state the aggregator can be in, every candle of the
  history, the open one included, has
  \<open>low \<le> min open close \<le> max open close \<le> high\<close>.
\<close>

theorem buildCandles_candles_ordered:
  assumes reach: "reachable a"
  shows "(\<forall>c \<in> set (candles (buildCandles sel tm clock a)).
            low c \<le> min (open c) (close c) \<and>
            min (open c) (close c) \<le> max (open c) (close c) \<and>
            max (open c) (close c) \<le> high c)
       \<and> (\<forall>c. candleRef (buildCandles sel tm clock a) = Some c \<longrightarrow>
            c \<in> set (candles (buildCandles sel tm clock a)))"
proof -
  have "reachable (buildCandles sel tm clock a)" using reach by (rule reach_build)
  then have inv: "agg_inv (buildCandles sel tm clock a)" by (rule reachable_inv)
  then have "\<forall>c \<in> set (candles (buildCandles sel tm clock a)). candle_ok c"
    by (simp add: agg_inv_def list_all_iff)
  moreover have "\<forall>c. candleRef (buildCandles sel tm clock a) = Some c \<longrightarrow>
            c \<in> set (candles (buildCandles sel tm clock a))"
    using inv last_in_set by (auto simp: agg_inv_def)
  ultimately show ?thesis by (simp add: candle_ok_def)
qed

theorem buildCandles_candles_ordered_witness:
  "reachable fiveTicks
   \<and> length (candles (buildCandles (Some \<lparr>stk_symbol = ''INFY'', price = 98.4\<rparr>)
                         ''09:15:06'' 60 fiveTicks)) = 2
   \<and> list_all (\<lambda>c. low c \<le> min (open c) (close c) \<and>
                    min (open c) (close c) \<le> max (open c) (close c) \<and>
                    max (open c) (close c) \<le> high c)
        (candles (buildCandles (Some \<lparr>stk_symbol = ''INFY'', price = 98.4\<rparr>)
                    ''09:15:06'' 60 fiveTicks))"
proof -
  have "length (candles (buildCandles (Some \<lparr>stk_symbol = ''INFY'', price = 98.4\<rparr>)
                           ''09:15:06'' 60 fiveTicks)) = 2"
    by (simp add: fiveTicks_def candle_defs)
  with reachable_fiveTicks
    buildCandles_candles_ordered [OF reachable_fiveTicks,
      where sel = "Some \<lparr>stk_symbol = ''INFY'', price = 98.4\<rparr>"
        and tm = "''09:15:06''" and clock = 60]
  show ?thesis unfolding list_all_iff by blast
qed





text \<open>
  C9. A sell whose quantity is not a positive finite number changes nothing in the ledger;
  when the symbol is in the market list it is rejected with the quantity alert, whatever
  the holdings are, so the check comes before the holding is looked up.
\<close>

theorem sellStock_invalid_quantity:
  assumes bad: "\<not> (\<exists>q. quantity = Fin q \<and> 0 < q)"
  shows "snd (sellStock r symb quantity st) = st \<and>
         (find (\<lambda>s. stk_symbol s = symb) (stocks r) \<noteq> None \<longrightarrow>
            fst (sellStock r symb quantity st) = Alert QuantityAtLeastOne)"
  using bad by (cases quantity) (auto simp: sellStock_def split: option.splits)

theorem sellStock_invalid_quantity_witness:
  "\<not> (\<exists>q. NaN = Fin q \<and> 0 < q) \<and> \<not> (\<exists>q. Fin (- 5) = Fin q \<and> 0 < q)
   \<and> find (\<lambda>s. stk_symbol s = ''INFY'') (stocks pennySale) \<noteq> None
   \<and> sellStock pennySale ''INFY'' NaN (snap pennySale)
       = (Alert QuantityAtLeastOne, snap pennySale)
   \<and> sellStock pennySale ''INFY'' (Fin (- 5)) (snap pennySale)
       = (Alert QuantityAtLeastOne, snap pennySale)"
proof -
  have n: "\<not> (\<exists>q. NaN = Fin q \<and> 0 < q)" by simp
  have m: "\<not> (\<exists>q. Fin (- 5) = Fin q \<and> 0 < q)" by simp
  have live: "find (\<lambda>s. stk_symbol s = ''INFY'') (stocks pennySale) \<noteq> None"
    by (simp add: pennySale_def infy_def)
  from sellStock_invalid_quantity [OF n, where r = pennySale and symb = "''INFY''"
      and st = "snap pennySale"] live
  have a: "sellStock pennySale ''INFY'' NaN (snap pennySale)
       = (Alert QuantityAtLeastOne, snap pennySale)"
    by (metis prod.collapse)
  from sellStock_invalid_quantity [OF m, where r = pennySale and symb = "''INFY''"
      and st = "snap pennySale"] live
  have b: "sellStock pennySale ''INFY'' (Fin (- 5)) (snap pennySale)
       = (Alert QuantityAtLeastOne, snap pennySale)"
    by (metis prod.collapse)
  from n m live a b show ?thesis by simp
qed

text \<open>
  C10. A filled sell can lower cash: one share sold at 10 has the gross credit 10, the
  flat dp charge 13.5 and the total charges 13.5064571, so the net credit is negative;
  cash goes from 99990 to 99986.49. No floor is applied to the net credit.
\<close>

theorem sellStock_can_lower_cash:
  "sellStock pennySale ''INFY'' (Fin 1) (snap pennySale)
     = (Filled,
        \<lparr>cash = 99986.49, holdings = [],
         orders = [\<lparr>ord_id = 3, ord_time = ''09:15:03'', ord_symbol = ''INFY'',
                    ord_side = SELL, ord_qty = 1, ord_price = 10, ord_status = FILLED,
                    ord_charges = 13.51\<rparr>]\<rparr>)
   \<and> cash (snap pennySale) = 99990
   \<and> dp (calculateCharges SELL 1 10) = 13.5
   \<and> total (calculateCharges SELL 1 10) = 13.5064571
   \<and> 1 * 10 - total (calculateCharges SELL 1 10) < 0
   \<and> cash (snd (sellStock pennySale ''INFY'' (Fin 1) (snap pennySale)))
       < cash (snap pennySale)"
  by (simp add: ledger_defs pennySale_def infy_def)

end
